theory Spec2Isabelle
  imports Complex_Main "HOL-Library.Product_Lexorder" "HOL-Library.Multiset" "HOL-Library.Sublist"
begin

section \<open>Text: the string operations the scripts rely on\<close>

text \<open>
  Python strings are modelled as \<^typ>\<open>string\<close>, one \<^typ>\<open>char\<close> per code point, for
  ASCII text (code points below 128): on such text \<open>str.upper\<close> maps \<open>a..z\<close> to
  \<open>A..Z\<close> and leaves everything else alone, \<open>str.strip\<close> removes the ten ASCII
  white-space characters at both ends, and the pattern \<open>\d\<close> matches \<open>0..9\<close>.
\<close>

definition upper_char :: "char \<Rightarrow> char" where
  "upper_char c =
     (case map_of (zip ''abcdefghijklmnopqrstuvwxyz'' ''ABCDEFGHIJKLMNOPQRSTUVWXYZ'') c of
        None \<Rightarrow> c
      | Some u \<Rightarrow> u)"

definition str_upper :: "string \<Rightarrow> string" where
  "str_upper s = map upper_char s"

definition is_space :: "char \<Rightarrow> bool" where
  "is_space c =
     (c \<in> set [CHR 0x09, CHR 0x0A, CHR 0x0B, CHR 0x0C, CHR 0x0D,
                CHR 0x1C, CHR 0x1D, CHR 0x1E, CHR 0x1F, CHR 0x20])"

definition strip :: "string \<Rightarrow> string" where
  "strip s = rev (dropWhile is_space (rev (dropWhile is_space s)))"

text \<open>\<open>contains k x\<close> is Python's \<open>k in x\<close> on strings: \<open>k\<close> occurs in \<open>x\<close> as a
  contiguous block.\<close>

fun contains :: "string \<Rightarrow> string \<Rightarrow> bool" where
  "contains k [] = (k = [])"
| "contains k (c # cs) = (prefix k (c # cs) \<or> contains k cs)"

definition is_digit :: "char \<Rightarrow> bool" where
  "is_digit c = (c \<in> set ''0123456789'')"

definition digit_val :: "char \<Rightarrow> nat" where
  "digit_val c =
     (case map_of (zip ''0123456789'' [0, 1, 2, 3, 4, 5, 6, 7, 8, 9]) c of
        None \<Rightarrow> 0
      | Some v \<Rightarrow> v)"

text \<open>\<open>int(s)\<close> on a string of decimal digits.\<close>

definition int_of_digits :: "string \<Rightarrow> nat" where
  "int_of_digits s = foldl (\<lambda>a c. 10 * a + digit_val c) 0 s"

section \<open>Calendar dates and \<open>parse_sheet_date\<close>\<close>

text \<open>A \<open>datetime.date\<close> is the triple (year, month, day); the lexicographic order on
  triples is the chronological order that \<open>groupby\<close> sorts its keys by.\<close>

type_synonym date = "nat \<times> nat \<times> nat"

definition year :: "date \<Rightarrow> nat" where
  "year dt = fst dt"

definition month :: "date \<Rightarrow> nat" where
  "month dt = fst (snd dt)"

definition day :: "date \<Rightarrow> nat" where
  "day dt = snd (snd dt)"

datatype error = ValueError | TypeError

definition is_leap :: "nat \<Rightarrow> bool" where
  "is_leap y = (y mod 4 = 0 \<and> (y mod 100 \<noteq> 0 \<or> y mod 400 = 0))"

definition days_in_month :: "nat \<Rightarrow> nat \<Rightarrow> nat" where
  "days_in_month y m =
     (if m = 2 then (if is_leap y then 29 else 28)
      else if m \<in> set [4, 6, 9, 11] then 30
      else 31)"

text \<open>The triples \<open>datetime\<close> accepts: years 1 to 9999, a month of the year, a day of
  that month.\<close>

definition valid_date :: "nat \<Rightarrow> nat \<Rightarrow> nat \<Rightarrow> bool" where
  "valid_date y m d =
     (1 \<le> y \<and> y \<le> 9999 \<and> 1 \<le> m \<and> m \<le> 12 \<and> 1 \<le> d \<and> d \<le> days_in_month y m)"

text \<open>
  Which dates pandas can hold depends on its version, so the two places of
  \<open>load_ledger\<close> that build pandas timestamps take that range as a parameter:
  \<open>timestamp_ok\<close> for \<open>pd.Timestamp(year=, month=, day=)\<close> and \<open>to_datetime_ok\<close> for
  \<open>pd.to_datetime\<close> on a column of dates. Outside the range either call raises
  \<open>OutOfBoundsDatetime\<close>, a \<open>ValueError\<close>.
\<close>

record pandas_bounds =
  timestamp_ok :: "date \<Rightarrow> bool"
  to_datetime_ok :: "date \<Rightarrow> bool"

text \<open>pandas 2: \<open>pd.Timestamp\<close> built from fields keeps microseconds and holds every
  calendar date, \<open>pd.to_datetime\<close> converts to nanoseconds since 1970, which reach from
  1677-09-22 to 2262-04-11.\<close>

definition pandas2 :: pandas_bounds where
  "pandas2 =
     \<lparr>timestamp_ok = (\<lambda>dt. True),
      to_datetime_ok = (\<lambda>dt. (1677, 9, 22) \<le> dt \<and> dt \<le> (2262, 4, 11))\<rparr>"

text \<open>\<open>pd.Timestamp(year=y, month=mth, day=d).date()\<close>.\<close>

definition Timestamp_date :: "pandas_bounds \<Rightarrow> nat \<Rightarrow> nat \<Rightarrow> nat \<Rightarrow> error + date" where
  "Timestamp_date P y m d =
     (if valid_date y m d \<and> timestamp_ok P (y, m, d) then Inr (y, m, d) else Inl ValueError)"

definition is_sep :: "char \<Rightarrow> bool" where
  "is_sep c = (c = CHR ''/'' \<or> c = CHR ''-'')"

text \<open>
  \<open>re.match(r"^(\d{1,2})[/-](\d{1,2})[/-](\d{4})$", name)\<close>, returning the three groups.
  A separator is no digit, so the first two groups are the whole runs of digits before
  each separator, of length 1 or 2, and the third is the rest, four digits.
\<close>

definition match_sheet_name :: "string \<Rightarrow> (string \<times> string \<times> string) option" where
  "match_sheet_name s =
     (let d = takeWhile is_digit s; r1 = dropWhile is_digit s in
      if length d = 1 \<or> length d = 2 then
        (case r1 of
           [] \<Rightarrow> None
         | c1 # t1 \<Rightarrow>
             if is_sep c1 then
               (let m = takeWhile is_digit t1; r2 = dropWhile is_digit t1 in
                if length m = 1 \<or> length m = 2 then
                  (case r2 of
                     [] \<Rightarrow> None
                   | c2 # t2 \<Rightarrow>
                       if is_sep c2 \<and> length t2 = 4 \<and> list_all is_digit t2
                       then Some (d, m, t2) else None)
                else None)
             else None)
      else None)"

text \<open>\<open>parse_sheet_date\<close>: \<open>Inr None\<close> is the source's \<open>return None\<close>, \<open>Inl ValueError\<close>
  the exception \<open>pd.Timestamp\<close> raises, which the function does not catch.\<close>

definition parse_sheet_date :: "pandas_bounds \<Rightarrow> string \<Rightarrow> error + date option" where
  "parse_sheet_date P name =
     (case match_sheet_name (strip name) of
        None \<Rightarrow> Inr None
      | Some (ds, ms, ys) \<Rightarrow>
          (case Timestamp_date P (int_of_digits ys) (int_of_digits ms) (int_of_digits ds) of
             Inl e \<Rightarrow> Inl e
           | Inr dt \<Rightarrow> Inr (Some dt)))"

section \<open>The workbook as \<open>load_ledger\<close> sees it\<close>

text \<open>
  A cell of a sheet is either empty (pandas reads it as NaN) or holds a value. Of a value
  the loader observes two things only: its \<open>str()\<close>, and what
  \<open>pd.to_numeric(..., errors="coerce")\<close> makes of it (\<open>None\<close> when the coercion yields
  NaN). \<open>Val ''PAPELERIA'' None\<close> is a text cell, \<open>Val ''120000'' (Some 120000)\<close> a
  numeric one. Amounts are exact rationals: the model does not round sums the way
  64-bit floats do.
\<close>

datatype cell = Blank | Val string "rat option"

definition isna :: "cell \<Rightarrow> bool" where
  "isna c = (c = Blank)"

definition to_numeric :: "cell \<Rightarrow> rat option" where
  "to_numeric c = (case c of Blank \<Rightarrow> None | Val s n \<Rightarrow> n)"

definition astype_str :: "cell \<Rightarrow> string" where
  "astype_str c = (case c of Blank \<Rightarrow> ''nan'' | Val s n \<Rightarrow> s)"

text \<open>What \<open>pd.read_excel(..., header=0)\<close> returns: the labels of the header row (each
  as its \<open>str()\<close>) and the rows below it.\<close>

record dataframe =
  columns :: "string list"
  rows :: "cell list list"

text \<open>A sheet of the workbook; \<open>content = None\<close> when \<open>pd.read_excel\<close> raises on it.\<close>

record sheet =
  sheet_name :: string
  content :: "dataframe option"

text \<open>A row of the frames \<open>temp\<close> and \<open>all_df\<close>. \<open>Fecha\<close> is a \<open>date option\<close> while the
  sheets are read and a \<open>date\<close> in the ledger \<open>load_ledger\<close> returns.\<close>

record 'd line =
  Fecha :: 'd
  Cuenta :: string
  Debe :: "rat option"
  Haber :: "rat option"

subsection \<open>Column detection\<close>

text \<open>The dictionary \<open>col_map\<close>; a field is \<open>None\<close> when the key is missing or maps to
  Python's \<open>None\<close> (\<open>col_map.get\<close> returns \<open>None\<close> in both cases).\<close>

record col_map =
  CUENTA :: "string option"
  DEBE :: "string option"
  HABER :: "string option"

text \<open>The loop \<open>for c in df.columns\<close> with its \<open>if/elif/elif\<close>.\<close>

fun scan_columns :: "string list \<Rightarrow> col_map \<Rightarrow> col_map" where
  "scan_columns [] m = m"
| "scan_columns (c # cs) m =
     scan_columns cs
       (if contains ''CUENTA'' c then m\<lparr>CUENTA := Some c\<rparr>
        else if contains ''DEBE'' c then m\<lparr>DEBE := Some c\<rparr>
        else if contains ''HABER'' c then m\<lparr>HABER := Some c\<rparr>
        else m)"

text \<open>\<open>base_cols\<close>: the first three labels, padded with \<open>None\<close> to length three.\<close>

definition base_cols :: "string list \<Rightarrow> string option list" where
  "base_cols cols =
     map Some (take 3 cols) @ replicate (3 - length (take 3 cols)) None"

definition detect_columns :: "string list \<Rightarrow> col_map" where
  "detect_columns cols =
     (let m = scan_columns cols \<lparr>CUENTA = None, DEBE = None, HABER = None\<rparr> in
      if CUENTA m = None \<or> DEBE m = None then
        \<lparr>CUENTA = base_cols cols ! 0, DEBE = base_cols cols ! 1, HABER = base_cols cols ! 2\<rparr>
      else m)"

subsection \<open>Reading one sheet\<close>

definition cell_at :: "cell list \<Rightarrow> nat \<Rightarrow> cell" where
  "cell_at r i = (if i < length r then r ! i else Blank)"

text \<open>\<open>df[label]\<close>. A label that stands once selects that column. A label that stands
  twice selects a two-dimensional frame, on which \<open>pd.to_numeric\<close> and the
  \<open>pd.DataFrame\<close> constructor raise: the result is \<open>None\<close> then.\<close>

definition getitem :: "string list \<Rightarrow> cell list list \<Rightarrow> string \<Rightarrow> cell list option" where
  "getitem cols rws l =
     (if length (filter (\<lambda>c. c = l) cols) = 1
      then Some (map (\<lambda>r. cell_at r (length (takeWhile (\<lambda>c. c \<noteq> l) cols))) rws)
      else None)"

text \<open>\<open>df[col] if col in df.columns else pd.Series(...)\<close>: an absent column is empty in
  every row of the frame.\<close>

definition select_column ::
    "string list \<Rightarrow> cell list list \<Rightarrow> string option \<Rightarrow> cell list option" where
  "select_column cols rws col =
     (case col of
        None \<Rightarrow> Some (replicate (length rws) Blank)
      | Some l \<Rightarrow>
          if l \<in> set cols then getitem cols rws l
          else Some (replicate (length rws) Blank))"

text \<open>The credit column is guarded by \<open>haber_col and haber_col in df.columns\<close>: the
  empty label is false in Python and counts as absent.\<close>

definition select_haber ::
    "string list \<Rightarrow> cell list list \<Rightarrow> string option \<Rightarrow> cell list option" where
  "select_haber cols rws col =
     (if col = Some [] then Some (replicate (length rws) Blank)
      else select_column cols rws col)"

text \<open>Lines 57 to 59: drop the rows that are empty in all three columns, then the rows
  whose account reads \<open>CUENTA\<close> in upper case, then strip the account.\<close>

definition clean_rows ::
    "'d \<Rightarrow> (cell \<times> rat option \<times> rat option) list \<Rightarrow> 'd line list" where
  "clean_rows fecha temp =
     map (\<lambda>(c, d, h). \<lparr>Fecha = fecha, Cuenta = strip (astype_str c), Debe = d, Haber = h\<rparr>)
       (filter (\<lambda>(c, d, h). str_upper (astype_str c) \<noteq> ''CUENTA'')
          (filter (\<lambda>(c, d, h). \<not> (isna c \<and> d = None \<and> h = None)) temp))"

text \<open>
  The body of the loop for a sheet that was read. The dictionary given to
  \<open>pd.DataFrame\<close> is evaluated in order: the date first (it may raise \<open>ValueError\<close>),
  then \<open>pd.to_numeric\<close> on the debit and on the credit selection (\<open>TypeError\<close> on a
  doubled label), and the constructor last (\<open>ValueError\<close> when the account selection is
  two-dimensional).
\<close>

definition sheet_frame ::
    "pandas_bounds \<Rightarrow> string \<Rightarrow> dataframe \<Rightarrow> error + date option line list" where
  "sheet_frame P s df =
     (let cols = map (\<lambda>c. str_upper (strip c)) (columns df);
          cm = detect_columns cols
      in case parse_sheet_date P s of
           Inl e \<Rightarrow> Inl e
         | Inr fecha \<Rightarrow>
             (case select_column cols (rows df) (DEBE cm) of
                None \<Rightarrow> Inl TypeError
              | Some debe \<Rightarrow>
                  (case select_haber cols (rows df) (HABER cm) of
                     None \<Rightarrow> Inl TypeError
                   | Some haber \<Rightarrow>
                       (case select_column cols (rows df) (CUENTA cm) of
                          None \<Rightarrow> Inl ValueError
                        | Some cuenta \<Rightarrow>
                            Inr (clean_rows fecha
                                   (zip cuenta
                                      (zip (map to_numeric debe) (map to_numeric haber))))))))"

text \<open>The loop over \<open>xls.sheet_names\<close> and \<open>pd.concat\<close>: a sheet that cannot be read is
  passed over (\<open>continue\<close>), an exception in the body ends the run.\<close>

fun load_sheets :: "pandas_bounds \<Rightarrow> sheet list \<Rightarrow> error + date option line list" where
  "load_sheets P [] = Inr []"
| "load_sheets P (s # ss) =
     (case content s of
        None \<Rightarrow> load_sheets P ss
      | Some df \<Rightarrow>
          (case sheet_frame P (sheet_name s) df of
             Inl e \<Rightarrow> Inl e
           | Inr temp \<Rightarrow>
               (case load_sheets P ss of
                  Inl e \<Rightarrow> Inl e
                | Inr rest \<Rightarrow> Inr (temp @ rest))))"

text \<open>Lines 62 and 63: the rows without a date go, and the dates of the others pass
  through \<open>pd.to_datetime\<close>.\<close>

definition dated :: "date option line \<Rightarrow> date line list" where
  "dated l =
     (case Fecha l of
        None \<Rightarrow> []
      | Some dt \<Rightarrow> [\<lparr>Fecha = dt, Cuenta = Cuenta l, Debe = Debe l, Haber = Haber l\<rparr>])"

definition load_ledger :: "pandas_bounds \<Rightarrow> sheet list \<Rightarrow> error + date line list" where
  "load_ledger P wb =
     (case load_sheets P wb of
        Inl e \<Rightarrow> Inl e
      | Inr all_df \<Rightarrow>
          if list_all (\<lambda>l. to_datetime_ok P (Fecha l)) (concat (map dated all_df))
          then Inr (concat (map dated all_df))
          else Inl ValueError)"

section \<open>\<open>compute_sections\<close>\<close>

definition gt0 :: "rat option \<Rightarrow> bool" where
  "gt0 v = (case v of None \<Rightarrow> False | Some x \<Rightarrow> 0 < x)"

definition ge :: "rat option \<Rightarrow> rat \<Rightarrow> bool" where
  "ge v b = (case v of None \<Rightarrow> False | Some x \<Rightarrow> b \<le> x)"

definition fillna0 :: "rat option \<Rightarrow> rat" where
  "fillna0 v = (case v of None \<Rightarrow> 0 | Some x \<Rightarrow> x)"

text \<open>\<open>df.groupby("Fecha", as_index=False)[col].sum()\<close>: one row per date, the dates
  in ascending order, each with the sum of the column over the rows of that date
  (NaN counts as 0). The sum is exact here. pandas adds 64-bit floats in the order of the
  rows, so its sum can differ from this one in the last bits and with the order of the
  rows.\<close>

definition groupby_sum :: "(date line \<Rightarrow> rat option) \<Rightarrow> date line list \<Rightarrow> (date \<times> rat) list" where
  "groupby_sum col df =
     map (\<lambda>d. (d, sum_list (map (\<lambda>l. fillna0 (col l)) (filter (\<lambda>l. Fecha l = d) df))))
       (sort (remdups (map Fecha df)))"

text \<open>\<open>Series.round(0)\<close> on floats rounds to the nearest whole number, a tie to the
  even one.\<close>

definition round0 :: "rat \<Rightarrow> rat" where
  "round0 x =
     (let f = \<lfloor>x\<rfloor>; r = x - of_int f in
      if r < 1 / 2 then of_int f
      else if 1 / 2 < r then of_int (f + 1)
      else if even f then of_int f
      else of_int (f + 1))"

text \<open>A row of \<open>retiros\<close> as the function returns it.\<close>

record withdrawal =
  RFecha :: date
  Monto :: rat
  Concepto :: string
  Detalle_Total :: rat
  Efectivo :: rat

text \<open>\<open>retiros.merge(det_totals, on="Fecha", how="left")\<close>, \<open>fillna(0)\<close> and the
  column \<open>Efectivo\<close>; \<open>det_totals\<close> has one row per date.\<close>

definition merge_totals :: "(date \<times> rat) list \<Rightarrow> (date \<times> rat) list \<Rightarrow> withdrawal list" where
  "merge_totals retiros det_totals =
     map (\<lambda>(d, m).
            \<lparr>RFecha = d, Monto = m, Concepto = ''COMPRAS'',
             Detalle_Total = (case map_of det_totals d of None \<Rightarrow> 0 | Some t \<Rightarrow> t),
             Efectivo = round0 (m - (case map_of det_totals d of None \<Rightarrow> 0 | Some t \<Rightarrow> t))\<rparr>)
       retiros"

text \<open>The five values \<open>compute_sections\<close> returns; a row of \<open>posibles_trans\<close> is a
  ledger line with its \<open>Tipo\<close>.\<close>

record sections =
  retiros :: "withdrawal list"
  detalles :: "date line list"
  posibles_trans :: "(date line \<times> string) list"
  trans_diario :: "(date \<times> rat) list"
  total_trans :: rat

text \<open>The test of line 78.\<close>

definition credit_mode :: "date line list \<Rightarrow> bool" where
  "credit_mode all_df =
     (list_ex (\<lambda>l. Haber l \<noteq> None) all_df \<and> 0 < sum_list (map (\<lambda>l. fillna0 (Haber l)) all_df))"

definition is_petty :: "string \<Rightarrow> date line \<Rightarrow> bool" where
  "is_petty petty_cash_name l = (str_upper (Cuenta l) = str_upper petty_cash_name)"

definition mask_kw :: "string list \<Rightarrow> date line \<Rightarrow> bool" where
  "mask_kw transfer_keywords l =
     list_ex (\<lambda>k. contains k (str_upper (Cuenta l))) transfer_keywords"

definition compute_sections ::
    "date line list \<Rightarrow> string \<Rightarrow> rat \<Rightarrow> string list \<Rightarrow> sections" where
  "compute_sections all_df petty_cash_name min_transfer_debe transfer_keywords =
     (let retiros0 =
            groupby_sum Debe
              (filter (\<lambda>l. is_petty petty_cash_name l \<and> gt0 (Debe l)) all_df);
          detalles = filter (\<lambda>l. gt0 (Debe l) \<and> \<not> is_petty petty_cash_name l) all_df;
          det_totals = groupby_sum Debe detalles;
          posibles =
            (if credit_mode all_df
             then map (\<lambda>l. (l, ''HABER'')) (filter (\<lambda>l. gt0 (Haber l)) all_df)
             else map (\<lambda>l. (l, ''DEBE(MAYOR)''))
                    (filter (\<lambda>l. ge (Debe l) min_transfer_debe \<and> mask_kw transfer_keywords l)
                       all_df));
          diario =
            groupby_sum (if credit_mode all_df then Haber else Debe) (map fst posibles)
      in \<lparr>retiros = merge_totals retiros0 det_totals,
          detalles = detalles,
          posibles_trans = posibles,
          trans_diario = diario,
          total_trans = sum_list (map snd diario)\<rparr>)"

subsection \<open>The configuration as \<open>main\<close> passes it on\<close>

text \<open>\<open>s.split(",")\<close>.\<close>

fun split_comma :: "string \<Rightarrow> string list" where
  "split_comma [] = [[]]"
| "split_comma (c # cs) =
     (if c = CHR '','' then [] # split_comma cs
      else (case split_comma cs of
              [] \<Rightarrow> [[c]]
            | w # ws \<Rightarrow> (c # w) # ws))"

text \<open>\<open>[k.strip().upper() for k in args.transfer_keywords.split(",") if k.strip()]\<close>.\<close>

definition main_keywords :: "string \<Rightarrow> string list" where
  "main_keywords arg =
     map (\<lambda>k. str_upper (strip k)) (filter (\<lambda>k. strip k \<noteq> []) (split_comma arg))"

text \<open>\<open>main\<close> from \<open>load_ledger\<close> to the call of \<open>compute_sections\<close>; the report is
  written from the five values returned.\<close>

definition main_sections ::
    "pandas_bounds \<Rightarrow> sheet list \<Rightarrow> string \<Rightarrow> rat \<Rightarrow> string \<Rightarrow> error + sections" where
  "main_sections P wb petty_cash_name min_transfer_debe keywords_arg =
     (case load_ledger P wb of
        Inl e \<Rightarrow> Inl e
      | Inr all_df \<Rightarrow>
          Inr (compute_sections all_df petty_cash_name min_transfer_debe
                 (main_keywords keywords_arg)))"

subsection \<open>Keyword mode in the words of the specification\<close>

text \<open>The default of \<open>--transfer-keywords\<close>.\<close>

definition default_transfer_keywords :: string where
  "default_transfer_keywords =
     ''PROVEEDOR,PROVEEDORES,BANCO,ARRIENDO,SERVICIO,SERVICIOS,PLANILLA,VEHICULO,VEHICULOS,GASOLINA,CLARO,COMPENSAR,FALABELLA,FINANDINA,DOTACION''"

text \<open>\<open>x\<close> contains \<open>k\<close> when case is ignored.\<close>

definition ci_contains :: "string \<Rightarrow> string \<Rightarrow> bool" where
  "ci_contains x k = contains (str_upper k) (str_upper x)"

text \<open>The keywords configured by a comma-separated option: its parts, stripped, the
  empty ones left out.\<close>

definition configured_keywords :: "string \<Rightarrow> string list" where
  "configured_keywords arg = filter (\<lambda>k. k \<noteq> []) (map strip (split_comma arg))"

text \<open>A transfer candidate of keyword mode as the specification words it: a debit of at
  least the threshold on an account that contains one of the configured keywords.\<close>

definition keyword_candidate :: "rat \<Rightarrow> string \<Rightarrow> date line \<Rightarrow> bool" where
  "keyword_candidate min_transfer_debe arg l =
     (ge (Debe l) min_transfer_debe \<and>
      list_ex (\<lambda>k. ci_contains (Cuenta l) k) (configured_keywords arg))"

subsection \<open>Column detection in words\<close>

text \<open>The first label that contains a token, as the specification words the
  detection.\<close>

definition first_containing :: "string \<Rightarrow> string list \<Rightarrow> string option" where
  "first_containing tok cols = find (contains tok) cols"

text \<open>The last label with a property.\<close>

definition last_where :: "(string \<Rightarrow> bool) \<Rightarrow> string list \<Rightarrow> string option" where
  "last_where Q cols = (case filter Q cols of [] \<Rightarrow> None | c # cs \<Rightarrow> Some (last (c # cs)))"

text \<open>The label at a position of the sheet, \<open>None\<close> when the sheet has no such
  position.\<close>

definition label_at :: "string list \<Rightarrow> nat \<Rightarrow> string option" where
  "label_at cols i = (if i < length cols then Some (cols ! i) else None)"

subsection \<open>One sheet at a time\<close>

text \<open>What one pass of the loop of \<open>load_sheets\<close> adds to \<open>records\<close>, or the exception
  it ends the run with.\<close>

definition sheet_result :: "pandas_bounds \<Rightarrow> sheet \<Rightarrow> error + date option line list" where
  "sheet_result P s =
     (case content s of
        None \<Rightarrow> Inr []
      | Some df \<Rightarrow> sheet_frame P (sheet_name s) df)"


definition sheet_rows :: "pandas_bounds \<Rightarrow> sheet \<Rightarrow> date option line list" where
  "sheet_rows P s = (case sheet_result P s of Inl e \<Rightarrow> [] | Inr temp \<Rightarrow> temp)"

section \<open>Two example sheets\<close>

text \<open>The sheet of 5 August 2025: a withdrawal of petty cash, a purchase and a payment
  to a bank.\<close>

definition sheet_5_aug :: sheet where
  "sheet_5_aug =
     \<lparr>sheet_name = ''05/08/2025'',
      content = Some
        \<lparr>columns = [''Cuenta'', ''Debe'', ''Haber''],
         rows = [[Val ''CAJA MENOR'' None, Val ''500000'' (Some 500000), Blank],
                 [Val ''PAPELERIA'' None, Val ''120000'' (Some 120000), Blank],
                 [Val ''BANCO XYZ'' None, Val ''350000'' (Some 350000), Blank]]\<rparr>\<rparr>"

definition ledger_5_aug :: "date line list" where
  "ledger_5_aug =
     [\<lparr>Fecha = (2025, 8, 5), Cuenta = ''CAJA MENOR'', Debe = Some 500000, Haber = None\<rparr>,
      \<lparr>Fecha = (2025, 8, 5), Cuenta = ''PAPELERIA'', Debe = Some 120000, Haber = None\<rparr>,
      \<lparr>Fecha = (2025, 8, 5), Cuenta = ''BANCO XYZ'', Debe = Some 350000, Haber = None\<rparr>]"


definition ledger_6_aug :: "date line list" where
  "ledger_6_aug =
     [\<lparr>Fecha = (2025, 8, 6), Cuenta = ''Caja Menor'', Debe = Some 100000, Haber = None\<rparr>,
      \<lparr>Fecha = (2025, 8, 6), Cuenta = ''CAJA MENOR 2'', Debe = Some 40000, Haber = None\<rparr>,
      \<lparr>Fecha = (2025, 8, 6), Cuenta = ''TAXI'', Debe = Some 150000, Haber = None\<rparr>,
      \<lparr>Fecha = (2025, 8, 6), Cuenta = ''CONSIGNACION'', Debe = None, Haber = Some 200000\<rparr>]"

section \<open>Sheet names and dates\<close>

lemma is_sep_not_digit: "is_sep c \<Longrightarrow> \<not> is_digit c"
  by (auto simp: is_sep_def is_digit_def)

lemma takeWhile_run: "list_all Q xs \<Longrightarrow> \<not> Q c \<Longrightarrow> takeWhile Q (xs @ c # r) = xs"
  by (induction xs) auto

lemma dropWhile_run: "list_all Q xs \<Longrightarrow> \<not> Q c \<Longrightarrow> dropWhile Q (xs @ c # r) = c # r"
  by (induction xs) auto

lemma match_sheet_name_groups:
  assumes "length ds = 1 \<or> length ds = 2" "length ms = 1 \<or> length ms = 2" "length ys = 4"
    and "list_all is_digit ds" "list_all is_digit ms" "list_all is_digit ys"
    and "is_sep s1" "is_sep s2"
  shows "match_sheet_name (ds @ s1 # ms @ s2 # ys) = Some (ds, ms, ys)"
  using assms
  by (simp add: match_sheet_name_def takeWhile_run dropWhile_run is_sep_not_digit)

text \<open>
  Claim C6. A sheet name that, once stripped, reads \<open>ds s1 ms s2 ys\<close> with \<open>ds\<close> and
  \<open>ms\<close> one or two digits, \<open>ys\<close> four digits and \<open>s1\<close>, \<open>s2\<close> each \<open>/\<close> or \<open>-\<close>, is
  turned into the date whose year, month and day are the numbers \<open>ys\<close>, \<open>ms\<close> and \<open>ds\<close>
  denote, whenever those numbers are a calendar date that pandas can hold; no other date
  is ever derived from such a name (the call raises \<open>ValueError\<close> instead).
\<close>

theorem parse_sheet_date_groups:
  assumes "strip name = ds @ s1 # ms @ s2 # ys"
    and "length ds = 1 \<or> length ds = 2" "length ms = 1 \<or> length ms = 2" "length ys = 4"
    and "list_all is_digit ds" "list_all is_digit ms" "list_all is_digit ys"
    and "is_sep s1" "is_sep s2"
  shows "parse_sheet_date P name =
           (if valid_date (int_of_digits ys) (int_of_digits ms) (int_of_digits ds) \<and>
               timestamp_ok P (int_of_digits ys, int_of_digits ms, int_of_digits ds)
            then Inr (Some (int_of_digits ys, int_of_digits ms, int_of_digits ds))
            else Inl ValueError) \<and>
         (\<forall>dt. parse_sheet_date P name = Inr (Some dt) \<longrightarrow>
            day dt = int_of_digits ds \<and> month dt = int_of_digits ms \<and>
            year dt = int_of_digits ys)"
  using assms match_sheet_name_groups[of ds ms ys s1 s2]
  by (auto simp: parse_sheet_date_def Timestamp_date_def year_def month_def day_def)

theorem parse_sheet_date_groups_witness:
  "strip '' 5-08/2025'' = ''5'' @ CHR ''-'' # ''08'' @ CHR ''/'' # ''2025'' \<and>
   parse_sheet_date pandas2 '' 5-08/2025'' = Inr (Some (2025, 8, 5)) \<and>
   day (2025, 8, 5) = 5 \<and> month (2025, 8, 5) = 8 \<and> year (2025, 8, 5) = 2025"
proof -
  have h: "strip '' 5-08/2025'' = ''5'' @ CHR ''-'' # ''08'' @ CHR ''/'' # ''2025''"
    by code_simp
  have l: "length ''5'' = 1 \<or> length ''5'' = 2" "length ''08'' = 1 \<or> length ''08'' = 2"
    "length ''2025'' = 4"
    by simp_all
  have d: "list_all is_digit ''5''" "list_all is_digit ''08''" "list_all is_digit ''2025''"
    by code_simp+
  have s: "is_sep CHR ''-''" "is_sep CHR ''/''"
    by code_simp+
  have v: "int_of_digits ''5'' = 5" "int_of_digits ''08'' = 8" "int_of_digits ''2025'' = 2025"
    by code_simp+
  have ok: "valid_date 2025 8 5" "timestamp_ok pandas2 (2025, 8, 5)"
    by code_simp+
  have p: "parse_sheet_date pandas2 '' 5-08/2025'' = Inr (Some (2025, 8, 5))"
    using parse_sheet_date_groups[OF h l d s, of pandas2, THEN conjunct1]
    unfolding v using ok by (simp only: simp_thms if_True)
  have f: "day (2025, 8, 5) = 5 \<and> month (2025, 8, 5) = 8 \<and> year (2025, 8, 5) = 2025"
    by (simp add: day_def month_def year_def)
  from h p f show ?thesis by (intro conjI) (simp_all only: simp_thms)
qed

text \<open>A sheet whose stripped name does not match the pattern leaves no line in the
  ledger.\<close>

lemma clean_rows_no_date: "l \<in> set (clean_rows None temp) \<Longrightarrow> dated l = []"
  by (auto simp: clean_rows_def dated_def)

lemma unmatched_name_adds_nothing:
  "match_sheet_name (strip (sheet_name s)) = None \<Longrightarrow>
     concat (map dated (sheet_rows P s)) = []"
  by (auto simp: sheet_rows_def sheet_result_def sheet_frame_def Let_def parse_sheet_date_def
      dest: clean_rows_no_date split: option.splits sum.splits)

text \<open>
  Claim C7. A sheet whose name is no calendar date is meant to add no line and to raise
  nothing. A name of the right shape whose numbers are no date does raise: the sheet
  \<open>31/02/2025\<close> ends the run with \<open>ValueError\<close>, whatever range of dates pandas holds.
\<close>

theorem load_ledger_invalid_date_raises:
  "load_ledger P
     [\<lparr>sheet_name = ''31/02/2025'',
       content = Some \<lparr>columns = [''Cuenta'', ''Debe'', ''Haber''], rows = []\<rparr>\<rparr>]
   = Inl ValueError"
  by code_simp

text \<open>
  Claim C8. No line of the ledger is meant to carry the header word as its account. The
  test against \<open>CUENTA\<close> is made before the account is stripped, so the cell
  \<open>Cuenta\<close> followed by a blank passes it and the line stays, its account stripped to
  \<open>Cuenta\<close>.
\<close>

theorem load_ledger_keeps_padded_header:
  "load_ledger pandas2
     [\<lparr>sheet_name = ''05/08/2025'',
       content = Some \<lparr>columns = [''Cuenta'', ''Debe'', ''Haber''],
                       rows = [[Val ''Cuenta '' None, Val ''100'' (Some 100), Blank]]\<rparr>\<rparr>]
   = Inr [\<lparr>Fecha = (2025, 8, 5), Cuenta = ''Cuenta'', Debe = Some 100, Haber = None\<rparr>]"
  by code_simp

section \<open>Grouping, rounding and the rows of \<open>retiros\<close>\<close>


lemma sum_no_credit:
  "\<not> list_ex (\<lambda>l. Haber l \<noteq> None) df \<Longrightarrow> sum_list (map (\<lambda>l. fillna0 (Haber l)) df) = 0"
  by (induction df) (auto simp: fillna0_def)

lemma credit_mode_iff:
  "credit_mode df \<longleftrightarrow> 0 < sum_list (map (\<lambda>l. fillna0 (Haber l)) df)"
  by (cases "list_ex (\<lambda>l. Haber l \<noteq> None) df") (simp_all add: credit_mode_def sum_no_credit)

lemma groupby_sum_keys: "map fst (groupby_sum col df) = sort (remdups (map Fecha df))"
  by (simp add: groupby_sum_def comp_def)

lemma groupby_sum_distinct: "distinct (map fst (groupby_sum col df))"
  by (simp add: groupby_sum_keys)

lemma groupby_sum_sorted: "sorted (map fst (groupby_sum col df))"
  by (simp add: groupby_sum_keys)

lemma groupby_sum_dates: "set (map fst (groupby_sum col df)) = Fecha ` set df"
  by (simp add: groupby_sum_keys)

lemma groupby_sum_value:
  "(d, v) \<in> set (groupby_sum col df) \<Longrightarrow>
     v = sum_list (map (\<lambda>l. fillna0 (col l)) (filter (\<lambda>l. Fecha l = d) df))"
  by (auto simp: groupby_sum_def)

lemma groupby_sum_map_of:
  "map_of (groupby_sum col df) d =
     (if d \<in> Fecha ` set df
      then Some (sum_list (map (\<lambda>l. fillna0 (col l)) (filter (\<lambda>l. Fecha l = d) df)))
      else None)"
  by (simp add: groupby_sum_def map_of_map_restrict restrict_map_def)

lemma sum_list_no_rows:
  "d \<notin> Fecha ` set df \<Longrightarrow> sum_list (map g (filter (\<lambda>l. Fecha l = d) df)) = 0"
  by (induction df) auto

lemma groupby_sum_lookup:
  "(case map_of (groupby_sum col df) d of None \<Rightarrow> 0 | Some t \<Rightarrow> t) =
     sum_list (map (\<lambda>l. fillna0 (col l)) (filter (\<lambda>l. Fecha l = d) df))"
  using sum_list_no_rows[of d df "\<lambda>l. fillna0 (col l)"]
  by (simp add: groupby_sum_map_of)

lemma round0_nearest: "\<exists>k::int. round0 x = of_int k \<and> \<bar>x - of_int k\<bar> \<le> 1 / 2"
proof -
  have b: "of_int \<lfloor>x\<rfloor> \<le> x" "x < of_int \<lfloor>x\<rfloor> + 1"
    by linarith+
  show ?thesis
  proof (cases "x - of_int \<lfloor>x\<rfloor> < 1 / 2")
    case True
    with b have "round0 x = of_int \<lfloor>x\<rfloor>" "\<bar>x - of_int \<lfloor>x\<rfloor>\<bar> \<le> 1 / 2"
      by (simp_all add: round0_def Let_def)
    then show ?thesis by blast
  next
    case False
    note nlt = this
    show ?thesis
    proof (cases "1 / 2 < x - of_int \<lfloor>x\<rfloor>")
      case True
      with nlt b have "round0 x = of_int (\<lfloor>x\<rfloor> + 1)" "\<bar>x - of_int (\<lfloor>x\<rfloor> + 1)\<bar> \<le> 1 / 2"
        by (simp_all add: round0_def Let_def)
      then show ?thesis by blast
    next
      case False
      with nlt have e: "x - of_int \<lfloor>x\<rfloor> = 1 / 2" by simp
      show ?thesis
      proof (cases "even \<lfloor>x\<rfloor>")
        case True
        with e have "round0 x = of_int \<lfloor>x\<rfloor>" "\<bar>x - of_int \<lfloor>x\<rfloor>\<bar> \<le> 1 / 2"
          by (simp_all add: round0_def Let_def)
        then show ?thesis by blast
      next
        case False
        with e have "round0 x = of_int (\<lfloor>x\<rfloor> + 1)" "\<bar>x - of_int (\<lfloor>x\<rfloor> + 1)\<bar> \<le> 1 / 2"
          by (simp_all add: round0_def Let_def)
        then show ?thesis by blast
      qed
    qed
  qed
qed

lemma retiros_rows:
  "retiros (compute_sections all_df p m kws) =
     map (\<lambda>(d, a).
            \<lparr>RFecha = d, Monto = a, Concepto = ''COMPRAS'',
             Detalle_Total =
               sum_list (map (\<lambda>l. fillna0 (Debe l))
                 (filter (\<lambda>l. Fecha l = d)
                    (filter (\<lambda>l. gt0 (Debe l) \<and> \<not> is_petty p l) all_df))),
             Efectivo =
               round0 (a - sum_list (map (\<lambda>l. fillna0 (Debe l))
                 (filter (\<lambda>l. Fecha l = d)
                    (filter (\<lambda>l. gt0 (Debe l) \<and> \<not> is_petty p l) all_df))))\<rparr>)
       (groupby_sum Debe (filter (\<lambda>l. is_petty p l \<and> gt0 (Debe l)) all_df))"
  by (simp add: compute_sections_def Let_def merge_totals_def groupby_sum_lookup)

lemma retiros_dates:
  "map RFecha (retiros (compute_sections all_df p m kws)) =
     sort (remdups (map Fecha (filter (\<lambda>l. is_petty p l \<and> gt0 (Debe l)) all_df)))"
  by (simp add: retiros_rows groupby_sum_def comp_def)

section \<open>The views of \<open>compute_sections\<close>\<close>

text \<open>
  Claim C1. The way transfers are detected is decided from the whole ledger. When the
  credits of all lines (an empty credit counting as 0) sum to more than 0, the transfer
  candidates are exactly the lines with a credit above 0, all tagged \<open>HABER\<close>, and the
  daily totals sum the credit column. When they sum to 0, the candidates are the lines
  that pass the keyword test, all tagged \<open>DEBE(MAYOR)\<close>, and the daily totals sum the
  debit column. Every line gets the same treatment: no sheet or line has a mode of its
  own.
\<close>

theorem transfer_mode_global:
  "(0 < sum_list (map (\<lambda>l. fillna0 (Haber l)) all_df) \<longrightarrow>
      posibles_trans (compute_sections all_df p m kws) =
        map (\<lambda>l. (l, ''HABER'')) (filter (\<lambda>l. gt0 (Haber l)) all_df) \<and>
      trans_diario (compute_sections all_df p m kws) =
        groupby_sum Haber (filter (\<lambda>l. gt0 (Haber l)) all_df)) \<and>
   (sum_list (map (\<lambda>l. fillna0 (Haber l)) all_df) = 0 \<longrightarrow>
      posibles_trans (compute_sections all_df p m kws) =
        map (\<lambda>l. (l, ''DEBE(MAYOR)''))
          (filter (\<lambda>l. ge (Debe l) m \<and> mask_kw kws l) all_df) \<and>
      trans_diario (compute_sections all_df p m kws) =
        groupby_sum Debe (filter (\<lambda>l. ge (Debe l) m \<and> mask_kw kws l) all_df))"
  by (simp add: compute_sections_def Let_def credit_mode_iff comp_def)

theorem transfer_mode_global_witness:
  "sum_list (map (\<lambda>l. fillna0 (Haber l)) ledger_5_aug) = 0 \<and>
   posibles_trans (compute_sections ledger_5_aug ''CAJA MENOR'' 300000 [''BANCO'']) =
     [(\<lparr>Fecha = (2025, 8, 5), Cuenta = ''BANCO XYZ'', Debe = Some 350000, Haber = None\<rparr>,
       ''DEBE(MAYOR)'')] \<and>
   0 < sum_list (map (\<lambda>l. fillna0 (Haber l)) (ledger_5_aug @ ledger_6_aug)) \<and>
   posibles_trans
     (compute_sections (ledger_5_aug @ ledger_6_aug) ''CAJA MENOR'' 300000 [''BANCO'']) =
     [(\<lparr>Fecha = (2025, 8, 6), Cuenta = ''CONSIGNACION'', Debe = None, Haber = Some 200000\<rparr>,
       ''HABER'')] \<and>
   trans_diario
     (compute_sections (ledger_5_aug @ ledger_6_aug) ''CAJA MENOR'' 300000 [''BANCO'']) =
     [((2025, 8, 6), 200000)]"
proof -
  have z: "sum_list (map (\<lambda>l. fillna0 (Haber l)) ledger_5_aug) = 0"
    by code_simp
  have k: "map (\<lambda>l. (l, ''DEBE(MAYOR)''))
             (filter (\<lambda>l. ge (Debe l) 300000 \<and> mask_kw [''BANCO''] l) ledger_5_aug) =
           [(\<lparr>Fecha = (2025, 8, 5), Cuenta = ''BANCO XYZ'', Debe = Some 350000, Haber = None\<rparr>,
             ''DEBE(MAYOR)'')]"
    by code_simp
  have c: "0 < sum_list (map (\<lambda>l. fillna0 (Haber l)) (ledger_5_aug @ ledger_6_aug))"
    by code_simp
  have h: "map (\<lambda>l. (l, ''HABER'')) (filter (\<lambda>l. gt0 (Haber l)) (ledger_5_aug @ ledger_6_aug)) =
           [(\<lparr>Fecha = (2025, 8, 6), Cuenta = ''CONSIGNACION'', Debe = None,
              Haber = Some 200000\<rparr>, ''HABER'')]"
    by code_simp
  have g: "groupby_sum Haber (filter (\<lambda>l. gt0 (Haber l)) (ledger_5_aug @ ledger_6_aug)) =
           [((2025, 8, 6), 200000)]"
    by code_simp
  note t1 = transfer_mode_global[of ledger_5_aug "''CAJA MENOR''" 300000 "[''BANCO'']",
      THEN conjunct2, rule_format, OF z, THEN conjunct1]
  note t2 = transfer_mode_global[of "ledger_5_aug @ ledger_6_aug" "''CAJA MENOR''" 300000
      "[''BANCO'']", THEN conjunct1, rule_format, OF c]
  show ?thesis
    using z c t1[unfolded k] t2[unfolded h g] by (intro conjI) (simp_all only: simp_thms)
qed

text \<open>
  Claim C3. \<open>retiros\<close> has one row for each date on which some line has the petty-cash
  account (equal as a whole once both are in upper case) and a debit above 0, and no other
  row; the \<open>Monto\<close> of a row is the sum of the debits of exactly those lines of its date.
\<close>

theorem withdrawals_view:
  "distinct (map RFecha (retiros (compute_sections all_df p m kws))) \<and>
   set (map RFecha (retiros (compute_sections all_df p m kws))) =
     Fecha ` {l \<in> set all_df. str_upper (Cuenta l) = str_upper p \<and> gt0 (Debe l)} \<and>
   (\<forall>r \<in> set (retiros (compute_sections all_df p m kws)).
      Monto r =
        sum_list (map (\<lambda>l. fillna0 (Debe l))
          (filter (\<lambda>l. Fecha l = RFecha r \<and> str_upper (Cuenta l) = str_upper p \<and> gt0 (Debe l))
             all_df)))"
proof (intro conjI ballI)
  show "distinct (map RFecha (retiros (compute_sections all_df p m kws)))"
    by (simp add: retiros_dates)
  show "set (map RFecha (retiros (compute_sections all_df p m kws))) =
     Fecha ` {l \<in> set all_df. str_upper (Cuenta l) = str_upper p \<and> gt0 (Debe l)}"
    unfolding retiros_dates by (auto simp: is_petty_def)
next
  fix r
  assume "r \<in> set (retiros (compute_sections all_df p m kws))"
  then obtain d a where
    da: "(d, a) \<in> set (groupby_sum Debe (filter (\<lambda>l. is_petty p l \<and> gt0 (Debe l)) all_df))"
    and r: "RFecha r = d" "Monto r = a"
    unfolding retiros_rows by auto
  from groupby_sum_value[OF da] r show "Monto r =
        sum_list (map (\<lambda>l. fillna0 (Debe l))
          (filter (\<lambda>l. Fecha l = RFecha r \<and> str_upper (Cuenta l) = str_upper p \<and> gt0 (Debe l))
             all_df))"
    by (simp add: is_petty_def conj_commute conj_left_commute)
qed

theorem withdrawals_view_witness:
  "\<lparr>RFecha = (2025, 8, 6), Monto = 100000, Concepto = ''COMPRAS'', Detalle_Total = 190000,
     Efectivo = - 90000\<rparr>
     \<in> set (retiros (compute_sections (ledger_5_aug @ ledger_6_aug) ''caja menor'' 300000 [])) \<and>
   sum_list (map (\<lambda>l. fillna0 (Debe l))
     (filter (\<lambda>l. Fecha l = (2025, 8, 6) \<and> str_upper (Cuenta l) = str_upper ''caja menor'' \<and>
                 gt0 (Debe l))
        (ledger_5_aug @ ledger_6_aug))) = 100000"
proof -
  have mem: "\<lparr>RFecha = (2025, 8, 6), Monto = 100000, Concepto = ''COMPRAS'',
       Detalle_Total = 190000, Efectivo = - 90000\<rparr>
     \<in> set (retiros (compute_sections (ledger_5_aug @ ledger_6_aug) ''caja menor'' 300000 []))"
    by code_simp
  from withdrawals_view[of "ledger_5_aug @ ledger_6_aug" "''caja menor''" 300000 "[]",
      THEN conjunct2, THEN conjunct2, THEN bspec, OF mem]
  have "sum_list (map (\<lambda>l. fillna0 (Debe l))
     (filter (\<lambda>l. Fecha l = (2025, 8, 6) \<and> str_upper (Cuenta l) = str_upper ''caja menor'' \<and>
                 gt0 (Debe l))
        (ledger_5_aug @ ledger_6_aug))) = 100000"
    by simp
  with mem show ?thesis by (intro conjI)
qed

lemma sum_filter_gt0:
  "list_all (\<lambda>l. 0 \<le> fillna0 (Debe l)) df \<Longrightarrow>
     sum_list (map (\<lambda>l. fillna0 (Debe l)) (filter (\<lambda>l. Q l \<and> gt0 (Debe l)) df)) =
     sum_list (map (\<lambda>l. fillna0 (Debe l)) (filter Q df))"
  by (induction df) (auto simp: gt0_def fillna0_def split: option.splits)

text \<open>
  Claim C2. In every row of \<open>retiros\<close>, \<open>Efectivo\<close> is \<open>Monto\<close> minus \<open>Detalle_Total\<close>
  rounded to a whole number (a whole number at most one half away, negative when the
  difference is), and \<open>Detalle_Total\<close> is the sum of the debits above 0 of the lines of
  that date whose account is not the petty-cash account: 0 when there is none, and, when
  no debit of the ledger is negative, the sum of all debits of those accounts on that
  date.
\<close>

theorem cash_delivered:
  "\<forall>r \<in> set (retiros (compute_sections all_df p m kws)).
     Efectivo r = round0 (Monto r - Detalle_Total r) \<and>
     (\<exists>k::int. Efectivo r = of_int k \<and> \<bar>Monto r - Detalle_Total r - of_int k\<bar> \<le> 1 / 2) \<and>
     Detalle_Total r =
       sum_list (map (\<lambda>l. fillna0 (Debe l))
         (filter (\<lambda>l. (Fecha l = RFecha r \<and> str_upper (Cuenta l) \<noteq> str_upper p) \<and> gt0 (Debe l))
            all_df)) \<and>
     (list_all (\<lambda>l. 0 \<le> fillna0 (Debe l)) all_df \<longrightarrow>
        Detalle_Total r =
          sum_list (map (\<lambda>l. fillna0 (Debe l))
            (filter (\<lambda>l. Fecha l = RFecha r \<and> str_upper (Cuenta l) \<noteq> str_upper p) all_df)))"
proof
  fix r
  assume "r \<in> set (retiros (compute_sections all_df p m kws))"
  then obtain d a where r: "RFecha r = d" "Monto r = a"
    and dt: "Detalle_Total r =
       sum_list (map (\<lambda>l. fillna0 (Debe l))
         (filter (\<lambda>l. Fecha l = d)
            (filter (\<lambda>l. gt0 (Debe l) \<and> \<not> is_petty p l) all_df)))"
    and ef: "Efectivo r = round0 (a - Detalle_Total r)"
    unfolding retiros_rows by auto
  have f: "filter (\<lambda>l. Fecha l = d) (filter (\<lambda>l. gt0 (Debe l) \<and> \<not> is_petty p l) all_df) =
           filter (\<lambda>l. (Fecha l = RFecha r \<and> str_upper (Cuenta l) \<noteq> str_upper p) \<and> gt0 (Debe l))
             all_df"
    using r by (auto simp: is_petty_def intro: filter_cong)
  have 1: "Efectivo r = round0 (Monto r - Detalle_Total r)"
    using ef r by simp
  have 2: "\<exists>k::int. Efectivo r = of_int k \<and> \<bar>Monto r - Detalle_Total r - of_int k\<bar> \<le> 1 / 2"
    unfolding 1 by (rule round0_nearest)
  have 3: "Detalle_Total r =
       sum_list (map (\<lambda>l. fillna0 (Debe l))
         (filter (\<lambda>l. (Fecha l = RFecha r \<and> str_upper (Cuenta l) \<noteq> str_upper p) \<and> gt0 (Debe l))
            all_df))"
    using dt f by simp
  have 4: "list_all (\<lambda>l. 0 \<le> fillna0 (Debe l)) all_df \<longrightarrow>
        Detalle_Total r =
          sum_list (map (\<lambda>l. fillna0 (Debe l))
            (filter (\<lambda>l. Fecha l = RFecha r \<and> str_upper (Cuenta l) \<noteq> str_upper p) all_df))"
    unfolding 3 by (rule impI) (rule sum_filter_gt0)
  from 1 2 3 4 show "Efectivo r = round0 (Monto r - Detalle_Total r) \<and>
     (\<exists>k::int. Efectivo r = of_int k \<and> \<bar>Monto r - Detalle_Total r - of_int k\<bar> \<le> 1 / 2) \<and>
     Detalle_Total r =
       sum_list (map (\<lambda>l. fillna0 (Debe l))
         (filter (\<lambda>l. (Fecha l = RFecha r \<and> str_upper (Cuenta l) \<noteq> str_upper p) \<and> gt0 (Debe l))
            all_df)) \<and>
     (list_all (\<lambda>l. 0 \<le> fillna0 (Debe l)) all_df \<longrightarrow>
        Detalle_Total r =
          sum_list (map (\<lambda>l. fillna0 (Debe l))
            (filter (\<lambda>l. Fecha l = RFecha r \<and> str_upper (Cuenta l) \<noteq> str_upper p) all_df)))"
    by (intro conjI)
qed

theorem cash_delivered_witness:
  "\<lparr>RFecha = (2025, 8, 6), Monto = 100000, Concepto = ''COMPRAS'', Detalle_Total = 190000,
     Efectivo = - 90000\<rparr>
     \<in> set (retiros (compute_sections (ledger_5_aug @ ledger_6_aug) ''CAJA MENOR'' 300000 [])) \<and>
   list_all (\<lambda>l. 0 \<le> fillna0 (Debe l)) (ledger_5_aug @ ledger_6_aug) \<and>
   (- 90000 :: rat) = round0 (100000 - 190000) \<and>
   (190000 :: rat) =
     sum_list (map (\<lambda>l. fillna0 (Debe l))
       (filter (\<lambda>l. Fecha l = (2025, 8, 6) \<and> str_upper (Cuenta l) \<noteq> str_upper ''CAJA MENOR'')
          (ledger_5_aug @ ledger_6_aug)))"
proof -
  have mem: "\<lparr>RFecha = (2025, 8, 6), Monto = 100000, Concepto = ''COMPRAS'',
       Detalle_Total = 190000, Efectivo = - 90000\<rparr>
     \<in> set (retiros (compute_sections (ledger_5_aug @ ledger_6_aug) ''CAJA MENOR'' 300000 []))"
    by code_simp
  have nn: "list_all (\<lambda>l. 0 \<le> fillna0 (Debe l)) (ledger_5_aug @ ledger_6_aug)"
    by code_simp
  note t = cash_delivered[of "ledger_5_aug @ ledger_6_aug" "''CAJA MENOR''" 300000 "[]",
      THEN bspec, OF mem]
  from t have a: "(- 90000 :: rat) = round0 (100000 - 190000)"
    by simp
  from t nn have b: "(190000 :: rat) =
     sum_list (map (\<lambda>l. fillna0 (Debe l))
       (filter (\<lambda>l. Fecha l = (2025, 8, 6) \<and> str_upper (Cuenta l) \<noteq> str_upper ''CAJA MENOR'')
          (ledger_5_aug @ ledger_6_aug)))"
    by simp
  from mem nn a b show ?thesis by (intro conjI)
qed

lemma mask_kw_main_keywords:
  "mask_kw (main_keywords arg) l = list_ex (\<lambda>k. ci_contains (Cuenta l) k) (configured_keywords arg)"
  by (auto simp: mask_kw_def main_keywords_def configured_keywords_def ci_contains_def
      list_ex_iff)

lemma keyword_filter:
  "filter (\<lambda>l. ge (Debe l) m \<and> mask_kw (main_keywords arg) l) df =
   filter (keyword_candidate m arg) df"
  by (rule filter_cong) (simp_all add: keyword_candidate_def mask_kw_main_keywords)

lemma not_credit_mode: "sum_list (map (\<lambda>l. fillna0 (Haber l)) df) \<le> 0 \<Longrightarrow> \<not> credit_mode df"
  by (simp add: credit_mode_iff)

lemma ge_fillna0: "ge v m \<Longrightarrow> v = Some (fillna0 v) \<and> m \<le> fillna0 v"
  by (cases v) (simp_all add: ge_def fillna0_def)

text \<open>
  Claim C4. When the credits do not sum to more than 0, the transfer candidates are
  exactly the lines of the ledger, in its order, whose debit is at least
  \<open>min_transfer_debe\<close> and whose account contains, case ignored, one of the keywords
  configured through \<open>--transfer-keywords\<close>; each is tagged \<open>DEBE(MAYOR)\<close>. The daily
  totals have one row for each date of a candidate, holding the sum of the debits of that
  date's candidates.
\<close>

theorem keyword_mode_candidates:
  assumes "sum_list (map (\<lambda>l. fillna0 (Haber l)) all_df) \<le> 0"
  shows "posibles_trans (compute_sections all_df p m (main_keywords arg)) =
           map (\<lambda>l. (l, ''DEBE(MAYOR)'')) (filter (keyword_candidate m arg) all_df) \<and>
         (\<forall>l. l \<in> fst ` set (posibles_trans (compute_sections all_df p m (main_keywords arg)))
              \<longleftrightarrow> l \<in> set all_df \<and> keyword_candidate m arg l) \<and>
         map fst (trans_diario (compute_sections all_df p m (main_keywords arg))) =
           sort (remdups (map Fecha (filter (keyword_candidate m arg) all_df))) \<and>
         (\<forall>d v. (d, v) \<in> set (trans_diario (compute_sections all_df p m (main_keywords arg)))
              \<longrightarrow> v = sum_list (map (\<lambda>l. fillna0 (Debe l))
                        (filter (\<lambda>l. Fecha l = d \<and> keyword_candidate m arg l) all_df)))"
proof -
  let ?S = "compute_sections all_df p m (main_keywords arg)"
  let ?C = "filter (keyword_candidate m arg) all_df"
  have pt: "posibles_trans ?S = map (\<lambda>l. (l, ''DEBE(MAYOR)'')) ?C"
    using not_credit_mode[OF assms]
    by (simp add: compute_sections_def Let_def keyword_filter)
  have td: "trans_diario ?S = groupby_sum Debe ?C"
    using not_credit_mode[OF assms]
    by (simp add: compute_sections_def Let_def keyword_filter comp_def)
  have 2: "\<forall>l. l \<in> fst ` set (posibles_trans ?S) \<longleftrightarrow> l \<in> set all_df \<and> keyword_candidate m arg l"
    unfolding pt by force
  have 3: "map fst (trans_diario ?S) = sort (remdups (map Fecha ?C))"
    unfolding td by (rule groupby_sum_keys)
  have 4: "\<forall>d v. (d, v) \<in> set (trans_diario ?S)
              \<longrightarrow> v = sum_list (map (\<lambda>l. fillna0 (Debe l))
                        (filter (\<lambda>l. Fecha l = d \<and> keyword_candidate m arg l) all_df))"
    unfolding td using groupby_sum_value[of _ _ Debe ?C]
    by (auto simp: conj_commute)
  from pt 2 3 4 show ?thesis by (intro conjI)
qed

theorem keyword_mode_candidates_witness:
  "sum_list (map (\<lambda>l. fillna0 (Haber l)) ledger_5_aug) \<le> 0 \<and>
   posibles_trans (compute_sections ledger_5_aug ''CAJA MENOR'' 300000
       (main_keywords '' proveedor, banco ,,'')) =
     [(\<lparr>Fecha = (2025, 8, 5), Cuenta = ''BANCO XYZ'', Debe = Some 350000, Haber = None\<rparr>,
       ''DEBE(MAYOR)'')] \<and>
   map fst (trans_diario (compute_sections ledger_5_aug ''CAJA MENOR'' 300000
       (main_keywords '' proveedor, banco ,,''))) = [(2025, 8, 5)]"
proof -
  have z: "sum_list (map (\<lambda>l. fillna0 (Haber l)) ledger_5_aug) \<le> 0"
    by code_simp
  have c: "filter (keyword_candidate 300000 '' proveedor, banco ,,'') ledger_5_aug =
      [\<lparr>Fecha = (2025, 8, 5), Cuenta = ''BANCO XYZ'', Debe = Some 350000, Haber = None\<rparr>]"
    by code_simp
  note t = keyword_mode_candidates[OF z, of "''CAJA MENOR''" 300000 "'' proveedor, banco ,,''"]
  from t[THEN conjunct1] have a: "posibles_trans (compute_sections ledger_5_aug ''CAJA MENOR'' 300000
       (main_keywords '' proveedor, banco ,,'')) =
     [(\<lparr>Fecha = (2025, 8, 5), Cuenta = ''BANCO XYZ'', Debe = Some 350000, Haber = None\<rparr>,
       ''DEBE(MAYOR)'')]"
    unfolding c by simp
  from t[THEN conjunct2, THEN conjunct2, THEN conjunct1]
  have b: "map fst (trans_diario (compute_sections ledger_5_aug ''CAJA MENOR'' 300000
       (main_keywords '' proveedor, banco ,,''))) = [(2025, 8, 5)]"
    unfolding c by simp
  from z a b show ?thesis by (intro conjI)
qed

text \<open>The second scenario of the specification, from the workbook to the five values:
  the line \<open>BANCO XYZ\<close> is the only candidate and the total of its day is 350000.\<close>

lemma scenario_B:
  "main_sections pandas2 [sheet_5_aug] ''CAJA MENOR'' 300000 default_transfer_keywords =
     Inr \<lparr>retiros =
            [\<lparr>RFecha = (2025, 8, 5), Monto = 500000, Concepto = ''COMPRAS'',
              Detalle_Total = 470000, Efectivo = 30000\<rparr>],
          detalles =
            [\<lparr>Fecha = (2025, 8, 5), Cuenta = ''PAPELERIA'', Debe = Some 120000, Haber = None\<rparr>,
             \<lparr>Fecha = (2025, 8, 5), Cuenta = ''BANCO XYZ'', Debe = Some 350000, Haber = None\<rparr>],
          posibles_trans =
            [(\<lparr>Fecha = (2025, 8, 5), Cuenta = ''BANCO XYZ'', Debe = Some 350000, Haber = None\<rparr>,
              ''DEBE(MAYOR)'')],
          trans_diario = [((2025, 8, 5), 350000)],
          total_trans = 350000\<rparr>"
  by code_simp

text \<open>
  Claim C10. The views overlap. When the credits do not sum to more than 0 and the
  threshold is positive, a transfer candidate whose account is not the petty-cash account
  is also a line of \<open>detalles\<close>, and on its date its debit is one of the summands of
  \<open>Detalle_Total\<close>, which \<open>Efectivo\<close> subtracts from the withdrawal.
\<close>

theorem transfer_candidates_are_itemized:
  assumes "sum_list (map (\<lambda>l. fillna0 (Haber l)) all_df) \<le> 0"
    and "0 < m"
    and "(l, t) \<in> set (posibles_trans (compute_sections all_df p m kws))"
    and "str_upper (Cuenta l) \<noteq> str_upper p"
  shows "l \<in> set (detalles (compute_sections all_df p m kws)) \<and>
         (\<forall>r \<in> set (retiros (compute_sections all_df p m kws)).
            RFecha r = Fecha l \<longrightarrow>
            (\<exists>pre post.
               filter (\<lambda>x. Fecha x = Fecha l) (detalles (compute_sections all_df p m kws)) =
                 pre @ l # post \<and>
               Detalle_Total r =
                 sum_list (map (\<lambda>x. fillna0 (Debe x)) pre) + fillna0 (Debe l) +
                 sum_list (map (\<lambda>x. fillna0 (Debe x)) post) \<and>
               Efectivo r =
                 round0 (Monto r -
                   (sum_list (map (\<lambda>x. fillna0 (Debe x)) pre) + fillna0 (Debe l) +
                    sum_list (map (\<lambda>x. fillna0 (Debe x)) post)))))"
proof -
  let ?S = "compute_sections all_df p m kws"
  have det: "detalles ?S = filter (\<lambda>l. gt0 (Debe l) \<and> \<not> is_petty p l) all_df"
    by (simp add: compute_sections_def Let_def)
  from assms(3) not_credit_mode[OF assms(1)]
  have l: "l \<in> set all_df" "ge (Debe l) m"
    by (auto simp: compute_sections_def Let_def)
  from ge_fillna0[OF l(2)] assms(2) have "gt0 (Debe l)"
    by (cases "Debe l") (auto simp: gt0_def)
  with l(1) assms(4) have mem: "l \<in> set (detalles ?S)"
    by (simp add: det is_petty_def)
  have rows: "\<forall>r \<in> set (retiros ?S). RFecha r = Fecha l \<longrightarrow>
            (\<exists>pre post.
               filter (\<lambda>x. Fecha x = Fecha l) (detalles ?S) = pre @ l # post \<and>
               Detalle_Total r =
                 sum_list (map (\<lambda>x. fillna0 (Debe x)) pre) + fillna0 (Debe l) +
                 sum_list (map (\<lambda>x. fillna0 (Debe x)) post) \<and>
               Efectivo r =
                 round0 (Monto r -
                   (sum_list (map (\<lambda>x. fillna0 (Debe x)) pre) + fillna0 (Debe l) +
                    sum_list (map (\<lambda>x. fillna0 (Debe x)) post))))"
  proof (intro ballI impI)
    fix r
    assume r: "r \<in> set (retiros ?S)" and d: "RFecha r = Fecha l"
    from mem have "l \<in> set (filter (\<lambda>x. Fecha x = Fecha l) (detalles ?S))"
      by simp
    then obtain pre post where
      sp: "filter (\<lambda>x. Fecha x = Fecha l) (detalles ?S) = pre @ l # post"
      by (auto dest: split_list)
    from r d have dt: "Detalle_Total r =
        sum_list (map (\<lambda>x. fillna0 (Debe x)) (filter (\<lambda>x. Fecha x = Fecha l) (detalles ?S)))"
      and ef: "Efectivo r = round0 (Monto r - Detalle_Total r)"
      unfolding retiros_rows det by auto
    have dt': "Detalle_Total r =
                 sum_list (map (\<lambda>x. fillna0 (Debe x)) pre) + fillna0 (Debe l) +
                 sum_list (map (\<lambda>x. fillna0 (Debe x)) post)"
      unfolding dt sp by simp
    from sp dt' ef show "\<exists>pre post.
               filter (\<lambda>x. Fecha x = Fecha l) (detalles ?S) = pre @ l # post \<and>
               Detalle_Total r =
                 sum_list (map (\<lambda>x. fillna0 (Debe x)) pre) + fillna0 (Debe l) +
                 sum_list (map (\<lambda>x. fillna0 (Debe x)) post) \<and>
               Efectivo r =
                 round0 (Monto r -
                   (sum_list (map (\<lambda>x. fillna0 (Debe x)) pre) + fillna0 (Debe l) +
                    sum_list (map (\<lambda>x. fillna0 (Debe x)) post)))"
      by (intro exI[of _ pre] exI[of _ post]) simp
  qed
  from mem rows show ?thesis by (intro conjI)
qed

lemma ex2_conjunct2: "\<exists>a b. A a b \<and> B a b \<Longrightarrow> \<exists>a b. B a b"
  by blast

theorem transfer_candidates_are_itemized_witness:
  "sum_list (map (\<lambda>l. fillna0 (Haber l)) ledger_5_aug) \<le> 0 \<and>
   (\<lparr>Fecha = (2025, 8, 5), Cuenta = ''BANCO XYZ'', Debe = Some 350000, Haber = None\<rparr>,
    ''DEBE(MAYOR)'')
     \<in> set (posibles_trans (compute_sections ledger_5_aug ''CAJA MENOR'' 300000 [''BANCO''])) \<and>
   str_upper ''BANCO XYZ'' \<noteq> str_upper ''CAJA MENOR'' \<and>
   \<lparr>Fecha = (2025, 8, 5), Cuenta = ''BANCO XYZ'', Debe = Some 350000, Haber = None\<rparr>
     \<in> set (detalles (compute_sections ledger_5_aug ''CAJA MENOR'' 300000 [''BANCO''])) \<and>
   (\<exists>(pre :: date line list) (post :: date line list).
      (470000 :: rat) =
        sum_list (map (\<lambda>x. fillna0 (Debe x)) pre) + 350000 +
        sum_list (map (\<lambda>x. fillna0 (Debe x)) post) \<and>
      (30000 :: rat) =
        round0 (500000 -
          (sum_list (map (\<lambda>x. fillna0 (Debe x)) pre) + 350000 +
           sum_list (map (\<lambda>x. fillna0 (Debe x)) post))))"
proof -
  let ?l = "\<lparr>Fecha = (2025, 8, 5), Cuenta = ''BANCO XYZ'', Debe = Some 350000, Haber = None\<rparr>"
  let ?r = "\<lparr>RFecha = (2025, 8, 5), Monto = 500000, Concepto = ''COMPRAS'',
             Detalle_Total = 470000, Efectivo = 30000\<rparr>"
  let ?S = "compute_sections ledger_5_aug ''CAJA MENOR'' 300000 [''BANCO'']"
  have z: "sum_list (map (\<lambda>l. fillna0 (Haber l)) ledger_5_aug) \<le> 0"
    by code_simp
  have m: "(0::rat) < 300000"
    by simp
  have c: "(?l, ''DEBE(MAYOR)'') \<in> set (posibles_trans ?S)"
    by code_simp
  have n: "str_upper (Cuenta ?l) \<noteq> str_upper ''CAJA MENOR''"
    by code_simp
  have r: "?r \<in> set (retiros ?S)"
    by code_simp
  note t = transfer_candidates_are_itemized[OF z m c n]
  from t have a: "?l \<in> set (detalles ?S)"
    by (rule conjunct1)
  have d: "RFecha ?r = Fecha ?l"
    by simp
  have e: "fillna0 (Debe ?l) = 350000"
    by (simp add: fillna0_def)
  have sel: "Detalle_Total ?r = 470000" "Efectivo ?r = 30000" "Monto ?r = 500000"
    by simp_all
  have b: "\<exists>(pre :: date line list) (post :: date line list).
      (470000 :: rat) =
        sum_list (map (\<lambda>x. fillna0 (Debe x)) pre) + 350000 +
        sum_list (map (\<lambda>x. fillna0 (Debe x)) post) \<and>
      (30000 :: rat) =
        round0 (500000 -
          (sum_list (map (\<lambda>x. fillna0 (Debe x)) pre) + 350000 +
           sum_list (map (\<lambda>x. fillna0 (Debe x)) post)))"
    using t[THEN conjunct2, THEN bspec, OF r, THEN mp, OF d] unfolding e sel
    by (rule ex2_conjunct2)
  from n have n': "str_upper ''BANCO XYZ'' \<noteq> str_upper ''CAJA MENOR''"
    by simp
  from z c n' a b show ?thesis by (intro conjI)
qed

section \<open>Column detection\<close>

lemma last_where_Cons:
  "last_where Q (c # cs) =
     (case last_where Q cs of None \<Rightarrow> (if Q c then Some c else None) | Some x \<Rightarrow> Some x)"
  by (auto simp: last_where_def split: list.splits)

lemma last_where_Nil: "last_where Q [] = None"
  by (simp add: last_where_def)

lemma scan_columns_CUENTA:
  "CUENTA (scan_columns cols m) =
     (case last_where (contains ''CUENTA'') cols of None \<Rightarrow> CUENTA m | Some c \<Rightarrow> Some c)"
  by (induction cols arbitrary: m) (simp_all add: last_where_Nil last_where_Cons split: option.splits)

lemma scan_columns_DEBE:
  "DEBE (scan_columns cols m) =
     (case last_where (\<lambda>c. \<not> contains ''CUENTA'' c \<and> contains ''DEBE'' c) cols of
        None \<Rightarrow> DEBE m | Some c \<Rightarrow> Some c)"
  by (induction cols arbitrary: m) (simp_all add: last_where_Nil last_where_Cons split: option.splits)

lemma scan_columns_HABER:
  "HABER (scan_columns cols m) =
     (case last_where (\<lambda>c. \<not> contains ''CUENTA'' c \<and> \<not> contains ''DEBE'' c \<and> contains ''HABER'' c)
             cols of
        None \<Rightarrow> HABER m | Some c \<Rightarrow> Some c)"
  by (induction cols arbitrary: m) (simp_all add: last_where_Nil last_where_Cons split: option.splits)

lemma scan_columns_empty:
  "scan_columns cols \<lparr>CUENTA = None, DEBE = None, HABER = None\<rparr> =
     \<lparr>CUENTA = last_where (contains ''CUENTA'') cols,
      DEBE = last_where (\<lambda>c. \<not> contains ''CUENTA'' c \<and> contains ''DEBE'' c) cols,
      HABER = last_where (\<lambda>c. \<not> contains ''CUENTA'' c \<and> \<not> contains ''DEBE'' c \<and>
                               contains ''HABER'' c) cols\<rparr>"
  by (rule col_map.equality)
    (simp_all add: scan_columns_CUENTA scan_columns_DEBE scan_columns_HABER split: option.splits)

lemma base_cols_nth:
  "i < 3 \<Longrightarrow> base_cols cols ! i = label_at cols i"
  by (auto simp: base_cols_def label_at_def nth_append)

text \<open>
  Claim C5, as the code has it. The loop keeps, for each of the three columns, the LAST
  label that matches: the account column is the last label containing \<open>CUENTA\<close>, the
  debit column the last label containing \<open>DEBE\<close> but not \<open>CUENTA\<close>, the credit column
  the last label containing \<open>HABER\<close> but neither of the other two. When no account or
  no debit column is found this way, the first three labels of the sheet are taken as
  account, debit and credit, a position the sheet does not have giving no column. A
  column that is missing is empty in every row, and so is a credit column whose label is
  the empty string.
\<close>

theorem column_detection:
  "detect_columns cols =
     (if last_where (contains ''CUENTA'') cols = None \<or>
         last_where (\<lambda>c. \<not> contains ''CUENTA'' c \<and> contains ''DEBE'' c) cols = None
      then \<lparr>CUENTA = label_at cols 0, DEBE = label_at cols 1, HABER = label_at cols 2\<rparr>
      else \<lparr>CUENTA = last_where (contains ''CUENTA'') cols,
            DEBE = last_where (\<lambda>c. \<not> contains ''CUENTA'' c \<and> contains ''DEBE'' c) cols,
            HABER = last_where (\<lambda>c. \<not> contains ''CUENTA'' c \<and> \<not> contains ''DEBE'' c \<and>
                                     contains ''HABER'' c) cols\<rparr>) \<and>
   select_column cols rws None = Some (replicate (length rws) Blank) \<and>
   select_haber cols rws None = Some (replicate (length rws) Blank) \<and>
   select_haber cols rws (Some []) = Some (replicate (length rws) Blank)"
  by (simp add: detect_columns_def Let_def scan_columns_empty base_cols_nth select_column_def
      select_haber_def)

theorem column_detection_witness:
  "detect_columns [''CUENTA'', ''DEBE'', ''HABER'', ''SUBCUENTA''] =
     \<lparr>CUENTA = Some ''SUBCUENTA'', DEBE = Some ''DEBE'', HABER = Some ''HABER''\<rparr> \<and>
   detect_columns [''CONCEPTO'', ''VALOR''] =
     \<lparr>CUENTA = Some ''CONCEPTO'', DEBE = Some ''VALOR'', HABER = None\<rparr> \<and>
   select_haber [''CONCEPTO'', ''VALOR''] [[Val ''TAXI'' None, Val ''5'' (Some 5)]] None =
     Some [Blank]"
proof -
  have a: "last_where (contains ''CUENTA'') [''CUENTA'', ''DEBE'', ''HABER'', ''SUBCUENTA''] =
      Some ''SUBCUENTA''"
    "last_where (\<lambda>c. \<not> contains ''CUENTA'' c \<and> contains ''DEBE'' c)
       [''CUENTA'', ''DEBE'', ''HABER'', ''SUBCUENTA''] = Some ''DEBE''"
    "last_where (\<lambda>c. \<not> contains ''CUENTA'' c \<and> \<not> contains ''DEBE'' c \<and> contains ''HABER'' c)
       [''CUENTA'', ''DEBE'', ''HABER'', ''SUBCUENTA''] = Some ''HABER''"
    by code_simp+
  have b: "last_where (contains ''CUENTA'') [''CONCEPTO'', ''VALOR''] = None"
    "label_at [''CONCEPTO'', ''VALOR''] 0 = Some ''CONCEPTO''"
    "label_at [''CONCEPTO'', ''VALOR''] 1 = Some ''VALOR''"
    "label_at [''CONCEPTO'', ''VALOR''] 2 = None"
    by code_simp+
  note t1 = column_detection[of "[''CUENTA'', ''DEBE'', ''HABER'', ''SUBCUENTA'']" "[]",
      THEN conjunct1, unfolded a]
  note t2 = column_detection[of "[''CONCEPTO'', ''VALOR'']"
      "[[Val ''TAXI'' None, Val ''5'' (Some 5)]]"]
  from t1 have 1: "detect_columns [''CUENTA'', ''DEBE'', ''HABER'', ''SUBCUENTA''] =
     \<lparr>CUENTA = Some ''SUBCUENTA'', DEBE = Some ''DEBE'', HABER = Some ''HABER''\<rparr>"
    by simp
  from t2[THEN conjunct1, unfolded b] have 2: "detect_columns [''CONCEPTO'', ''VALOR''] =
     \<lparr>CUENTA = Some ''CONCEPTO'', DEBE = Some ''VALOR'', HABER = None\<rparr>"
    by simp
  from t2[THEN conjunct2, THEN conjunct2, THEN conjunct1]
  have 3: "select_haber [''CONCEPTO'', ''VALOR''] [[Val ''TAXI'' None, Val ''5'' (Some 5)]] None =
     Some [Blank]"
    by simp
  from 1 2 3 show ?thesis by (intro conjI)
qed

text \<open>The claim as worded fails: with a fourth label \<open>SUBCUENTA\<close> the account column is
  that one, not the first label containing \<open>CUENTA\<close>, and the ledger takes its accounts
  from it.\<close>

theorem column_detection_counterexample:
  "CUENTA (detect_columns [''CUENTA'', ''DEBE'', ''HABER'', ''SUBCUENTA'']) \<noteq>
     first_containing ''CUENTA'' [''CUENTA'', ''DEBE'', ''HABER'', ''SUBCUENTA''] \<and>
   CUENTA (detect_columns [''CUENTA'', ''DEBE'', ''HABER'', ''SUBCUENTA'']) = Some ''SUBCUENTA'' \<and>
   first_containing ''CUENTA'' [''CUENTA'', ''DEBE'', ''HABER'', ''SUBCUENTA''] = Some ''CUENTA'' \<and>
   load_ledger pandas2
     [\<lparr>sheet_name = ''05/08/2025'',
       content = Some
         \<lparr>columns = [''Cuenta'', ''Debe'', ''Haber'', ''Subcuenta''],
          rows = [[Val ''PAPELERIA'' None, Val ''120000'' (Some 120000), Blank,
                   Val ''LAPICES'' None]]\<rparr>\<rparr>] =
     Inr [\<lparr>Fecha = (2025, 8, 5), Cuenta = ''LAPICES'', Debe = Some 120000, Haber = None\<rparr>]"
  by code_simp

section \<open>The order of the sheets\<close>



















end
